theory Spec2Isabelle
  imports Complex_Main "HOL-Library.Word"
begin

section \<open>JavaScript strings\<close>

text \<open>
  A JavaScript string is a sequence of UTF-16 code units.  The repair engine tests a
  code unit against \<open>0xFEFF\<close> and its regular expressions use \<open>\s\<close>, which
  contains code units above \<open>0xFF\<close>, so a code unit is a 16-bit word; \<open>js\<close>
  embeds an ASCII literal.
\<close>

type_synonym cu = "16 word"
type_synonym jstring = "cu list"

definition js :: "string \<Rightarrow> jstring" where
  "js s = map of_char s"

abbreviation c_lf :: cu where "c_lf \<equiv> 0x0A"
abbreviation c_space :: cu where "c_space \<equiv> 0x20"
abbreviation c_dquote :: cu where "c_dquote \<equiv> 0x22"
abbreviation c_squote :: cu where "c_squote \<equiv> 0x27"
abbreviation c_star :: cu where "c_star \<equiv> 0x2A"
abbreviation c_plus :: cu where "c_plus \<equiv> 0x2B"
abbreviation c_comma :: cu where "c_comma \<equiv> 0x2C"
abbreviation c_minus :: cu where "c_minus \<equiv> 0x2D"
abbreviation c_dot :: cu where "c_dot \<equiv> 0x2E"
abbreviation c_slash :: cu where "c_slash \<equiv> 0x2F"
abbreviation c_colon :: cu where "c_colon \<equiv> 0x3A"
abbreviation c_lbracket :: cu where "c_lbracket \<equiv> 0x5B"
abbreviation c_backslash :: cu where "c_backslash \<equiv> 0x5C"
abbreviation c_rbracket :: cu where "c_rbracket \<equiv> 0x5D"
abbreviation c_lbrace :: cu where "c_lbrace \<equiv> 0x7B"
abbreviation c_rbrace :: cu where "c_rbrace \<equiv> 0x7D"
abbreviation c_bom :: cu where "c_bom \<equiv> 0xFEFF"

text \<open>\<open>\d\<close>, \<open>\w\<close> and \<open>[0-9A-Fa-f]\<close> of a regular expression without the \<open>u\<close> flag.\<close>

definition is_digit :: "cu \<Rightarrow> bool" where
  "is_digit c = (0x30 \<le> c \<and> c \<le> 0x39)"

definition is_word :: "cu \<Rightarrow> bool" where
  "is_word c = ((0x61 \<le> c \<and> c \<le> 0x7A) \<or> (0x41 \<le> c \<and> c \<le> 0x5A) \<or> is_digit c \<or> c = 0x5F)"

definition is_hex :: "cu \<Rightarrow> bool" where
  "is_hex c = (is_digit c \<or> (0x41 \<le> c \<and> c \<le> 0x46) \<or> (0x61 \<le> c \<and> c \<le> 0x66))"

text \<open>
  The white space of \<open>\s\<close> and of \<open>String.prototype.trim\<close>: the ECMAScript
  WhiteSpace and LineTerminator code points.
\<close>

definition is_space :: "cu \<Rightarrow> bool" where
  "is_space c = (c = 0x20 \<or> (0x09 \<le> c \<and> c \<le> 0x0D) \<or> c = 0xA0 \<or> c = 0x1680
     \<or> (0x2000 \<le> c \<and> c \<le> 0x200A) \<or> c = 0x2028 \<or> c = 0x2029 \<or> c = 0x202F
     \<or> c = 0x205F \<or> c = 0x3000 \<or> c = 0xFEFF)"

definition trim :: "jstring \<Rightarrow> jstring" where
  "trim s = rev (dropWhile is_space (rev (dropWhile is_space s)))"

fun startsWith :: "jstring \<Rightarrow> jstring \<Rightarrow> bool" where
  "startsWith s [] = True"
| "startsWith [] (p # ps) = False"
| "startsWith (x # xs) (p # ps) = (x = p \<and> startsWith xs ps)"

definition endsWith :: "jstring \<Rightarrow> jstring \<Rightarrow> bool" where
  "endsWith s p = startsWith (rev s) (rev p)"

fun str_includes :: "jstring \<Rightarrow> jstring \<Rightarrow> bool" where
  "str_includes [] p = (p = [])"
| "str_includes (x # xs) p = (startsWith (x # xs) p \<or> str_includes xs p)"

text \<open>\<open>s.split(sep)\<close> for a separator of one code unit, and \<open>parts.join(sep)\<close>.\<close>

fun split :: "cu \<Rightarrow> jstring \<Rightarrow> jstring list" where
  "split sep [] = [[]]"
| "split sep (x # xs) =
     (if x = sep then [] # split sep xs
      else (case split sep xs of [] \<Rightarrow> [[x]] | h # t \<Rightarrow> (x # h) # t))"

fun join :: "jstring \<Rightarrow> jstring list \<Rightarrow> jstring" where
  "join sep [] = []"
| "join sep [p] = p"
| "join sep (p # q # ps) = p @ sep @ join sep (q # ps)"

section \<open>The strict parser: \<open>JSON.parse\<close>\<close>

text \<open>
  The engine uses \<open>JSON.parse\<close> as a black box.  It is modelled after the JSON grammar
  (ECMA-404) as ECMAScript's \<open>JSON.parse\<close> reads it: a duplicate key keeps its first
  position and its last value.  A number is kept as its exact rational value (the
  double it is rounded to in JavaScript is a function of that value).
\<close>

datatype json = JNull | JBool bool | JNum rat | JStr jstring
  | JArr "json list" | JObj "(jstring \<times> json) list"

definition is_json_ws :: "cu \<Rightarrow> bool" where
  "is_json_ws c = (c = 0x20 \<or> c = 0x09 \<or> c = 0x0A \<or> c = 0x0D)"

definition skip_ws :: "jstring \<Rightarrow> jstring" where
  "skip_ws s = dropWhile is_json_ws s"

definition hex_val :: "cu \<Rightarrow> nat" where
  "hex_val c = (if is_digit c then unat c - 0x30
                else if 0x41 \<le> c \<and> c \<le> 0x46 then unat c - 0x37
                else unat c - 0x57)"

definition digits_val :: "nat \<Rightarrow> jstring \<Rightarrow> nat" where
  "digits_val base ds = foldl (\<lambda>a d. base * a + hex_val d) 0 ds"

definition simple_escape :: "cu \<Rightarrow> cu option" where
  "simple_escape e =
     (if e = 0x22 \<or> e = 0x5C \<or> e = 0x2F then Some e
      else if e = 0x62 then Some 0x08
      else if e = 0x66 then Some 0x0C
      else if e = 0x6E then Some 0x0A
      else if e = 0x72 then Some 0x0D
      else if e = 0x74 then Some 0x09
      else None)"

text \<open>The characters after an opening quote: the decoded string and what follows it.\<close>

fun parse_string :: "jstring \<Rightarrow> (jstring \<times> jstring) option" where
  "parse_string [] = None"
| "parse_string (c # cs) =
     (if c = c_dquote then Some ([], cs)
      else if c = c_backslash then
        (case cs of
           [] \<Rightarrow> None
         | e # es \<Rightarrow>
             if e = 0x75 then
               (case es of
                  h1 # h2 # h3 # h4 # r \<Rightarrow>
                    if is_hex h1 \<and> is_hex h2 \<and> is_hex h3 \<and> is_hex h4 then
                      (case parse_string r of
                         None \<Rightarrow> None
                       | Some (str, rest) \<Rightarrow>
                           Some (of_nat (digits_val 16 [h1, h2, h3, h4]) # str, rest))
                    else None
                | _ \<Rightarrow> None)
             else
               (case simple_escape e of
                  None \<Rightarrow> None
                | Some d \<Rightarrow>
                    (case parse_string es of
                       None \<Rightarrow> None
                     | Some (str, rest) \<Rightarrow> Some (d # str, rest))))
      else if c < 0x20 then None
      else (case parse_string cs of
              None \<Rightarrow> None
            | Some (str, rest) \<Rightarrow> Some (c # str, rest)))"

text \<open>
  A number: \<open>-? (0 | [1-9][0-9]*) (. [0-9]+)? ([eE] [+-]? [0-9]+)?\<close>, read at the
  head of the text.
\<close>

definition pow10 :: "int \<Rightarrow> rat" where
  "pow10 e = (if 0 \<le> e then 10 ^ nat e else 1 / 10 ^ nat (- e))"

definition strip_sign :: "jstring \<Rightarrow> jstring" where
  "strip_sign es = (case es of [] \<Rightarrow> [] | g # gs \<Rightarrow> if g = c_minus \<or> g = c_plus then gs else es)"

definition is_negative :: "jstring \<Rightarrow> bool" where
  "is_negative es = (case es of [] \<Rightarrow> False | g # gs \<Rightarrow> g = c_minus)"

definition parse_exponent :: "jstring \<Rightarrow> (int \<times> jstring) option" where
  "parse_exponent s =
     (case s of
        [] \<Rightarrow> Some (0, s)
      | e # es \<Rightarrow>
          if e = 0x65 \<or> e = 0x45 then
            (if takeWhile is_digit (strip_sign es) = [] then None
             else Some ((if is_negative es
                         then - int (digits_val 10 (takeWhile is_digit (strip_sign es)))
                         else int (digits_val 10 (takeWhile is_digit (strip_sign es)))),
                        dropWhile is_digit (strip_sign es)))
          else Some (0, s))"

definition strip_minus :: "jstring \<Rightarrow> jstring" where
  "strip_minus s = (case s of [] \<Rightarrow> [] | c # cs \<Rightarrow> if c = c_minus then cs else s)"

definition parse_fraction :: "jstring \<Rightarrow> (jstring \<times> jstring) option" where
  "parse_fraction s =
     (case s of
        [] \<Rightarrow> Some ([], s)
      | d # ds \<Rightarrow>
          if d = c_dot then
            (if takeWhile is_digit ds = [] then None
             else Some (takeWhile is_digit ds, dropWhile is_digit ds))
          else Some ([], s))"

definition parse_number :: "jstring \<Rightarrow> (rat \<times> jstring) option" where
  "parse_number s =
     (case strip_minus s of
        [] \<Rightarrow> None
      | d # ds \<Rightarrow>
          if \<not> is_digit d then None
          else
            (case parse_fraction (if d = 0x30 then ds else dropWhile is_digit (d # ds)) of
               None \<Rightarrow> None
             | Some (fp, s3) \<Rightarrow>
                 (case parse_exponent s3 of
                    None \<Rightarrow> None
                  | Some (ex, s4) \<Rightarrow>
                      Some ((if is_negative s then - 1 else 1)
                              * of_nat (digits_val 10
                                  ((if d = 0x30 then [d] else takeWhile is_digit (d # ds)) @ fp))
                              * pow10 (ex - int (length fp)), s4))))"

text \<open>A later member with the same key gives its value to the earlier one.\<close>

definition add_member :: "jstring \<Rightarrow> json \<Rightarrow> (jstring \<times> json) list \<Rightarrow> (jstring \<times> json) list" where
  "add_member k v ms =
     (case map_of ms k of
        None \<Rightarrow> (k, v) # ms
      | Some v' \<Rightarrow> (k, v') # filter (\<lambda>m. fst m \<noteq> k) ms)"

lemma length_skip_ws: "length (skip_ws s) \<le> length s"
  by (simp add: skip_ws_def length_dropWhile_le)

lemma skip_ws_Cons_length: "skip_ws s = d # ds \<Longrightarrow> length ds < length s"
  using length_skip_ws [of s] by simp

function parse_value :: "jstring \<Rightarrow> (json \<times> jstring) option"
  and parse_elements :: "jstring \<Rightarrow> (json list \<times> jstring) option"
  and parse_members :: "jstring \<Rightarrow> ((jstring \<times> json) list \<times> jstring) option"
where
  "parse_value s =
     (case s of
        [] \<Rightarrow> None
      | c # cs \<Rightarrow>
          if c = c_lbrace then
            (case skip_ws cs of
               [] \<Rightarrow> None
             | d # ds \<Rightarrow>
                 if d = c_rbrace then Some (JObj [], ds)
                 else (case parse_members (d # ds) of
                         None \<Rightarrow> None
                       | Some (ms, r) \<Rightarrow> Some (JObj ms, r)))
          else if c = c_lbracket then
            (case skip_ws cs of
               [] \<Rightarrow> None
             | d # ds \<Rightarrow>
                 if d = c_rbracket then Some (JArr [], ds)
                 else (case parse_elements (d # ds) of
                         None \<Rightarrow> None
                       | Some (vs, r) \<Rightarrow> Some (JArr vs, r)))
          else if c = c_dquote then
            (case parse_string cs of
               None \<Rightarrow> None
             | Some (str, r) \<Rightarrow> Some (JStr str, r))
          else if startsWith s (js ''true'') then Some (JBool True, drop 4 s)
          else if startsWith s (js ''false'') then Some (JBool False, drop 5 s)
          else if startsWith s (js ''null'') then Some (JNull, drop 4 s)
          else (case parse_number s of
                  None \<Rightarrow> None
                | Some (x, r) \<Rightarrow> Some (JNum x, r)))"
| "parse_elements s =
     (case parse_value s of
        None \<Rightarrow> None
      | Some (v, r) \<Rightarrow>
          if length r < length s then
            (case skip_ws r of
               [] \<Rightarrow> None
             | d # ds \<Rightarrow>
                 if d = c_rbracket then Some ([v], ds)
                 else if d = c_comma then
                   (case parse_elements (skip_ws ds) of
                      None \<Rightarrow> None
                    | Some (vs, r') \<Rightarrow> Some (v # vs, r'))
                 else None)
          else None)"
| "parse_members s =
     (case s of
        [] \<Rightarrow> None
      | c # cs \<Rightarrow>
          if c \<noteq> c_dquote then None
          else
            (case parse_string cs of
               None \<Rightarrow> None
             | Some (k, r1) \<Rightarrow>
                 (case skip_ws r1 of
                    [] \<Rightarrow> None
                  | d # ds \<Rightarrow>
                      if d \<noteq> c_colon \<or> \<not> length ds < length s then None
                      else
                        (case parse_value (skip_ws ds) of
                           None \<Rightarrow> None
                         | Some (v, r2) \<Rightarrow>
                             if length r2 < length s then
                               (case skip_ws r2 of
                                  [] \<Rightarrow> None
                                | e # es \<Rightarrow>
                                    if e = c_rbrace then Some ([(k, v)], es)
                                    else if e = c_comma then
                                      (case parse_members (skip_ws es) of
                                         None \<Rightarrow> None
                                       | Some (ms, r3) \<Rightarrow> Some (add_member k v ms, r3))
                                    else None)
                             else None))))"
  by pat_completeness auto
termination
proof (relation "measure (\<lambda>x. case x of
          Inl s \<Rightarrow> 2 * length s
        | Inr (Inl s) \<Rightarrow> 2 * length s + 1
        | Inr (Inr s) \<Rightarrow> 2 * length s + 1)", goal_cases)
  case 1
  show ?case by simp
next
  case (2 s c cs d ds)
  then show ?case using skip_ws_Cons_length [of cs d ds] by simp
next
  case (3 s c cs d ds)
  then show ?case using skip_ws_Cons_length [of cs d ds] by simp
next
  case (4 s)
  show ?case by simp
next
  case (5 s x v r d ds)
  then show ?case
    using skip_ws_Cons_length [of r d ds] length_skip_ws [of ds] by simp
next
  case (6 s c cs x k r1 d ds)
  then show ?case using length_skip_ws [of ds] by simp
next
  case (7 s c cs x k r1 d ds y v r2 e es)
  then show ?case
    using skip_ws_Cons_length [of r2 e es] length_skip_ws [of es] by simp
qed

definition JSON_parse :: "jstring \<Rightarrow> json option" where
  "JSON_parse t =
     (case parse_value (skip_ws t) of
        None \<Rightarrow> None
      | Some (v, r) \<Rightarrow> if skip_ws r = [] then Some v else None)"

section \<open>Regular expressions\<close>

text \<open>
  The passes are written with JavaScript regular expressions.  \<open>rmatch r st\<close> lists
  the ways \<open>r\<close> matches at a position, in the order in which a backtracking matcher
  tries them (first alternative first, a greedy \<open>*\<close> longest first, a lazy \<open>*?\<close>
  shortest first), so the head of the list is the match JavaScript reports.  A position
  is the code unit before it (for \<open>\b\<close>), the rest of the text, and the groups
  captured so far.  An iteration of \<open>*\<close> that consumes nothing is rejected, as in
  ECMAScript.
\<close>

type_synonym caps = "(nat \<times> jstring) list"
type_synonym mstate = "cu option \<times> jstring \<times> caps"

datatype re = Cls "cu \<Rightarrow> bool" | Eps | Seq re re | Alt re re | Star re | Lazy re
  | Grp nat re | Ahead re | WordB | End

function rmatch :: "re \<Rightarrow> mstate \<Rightarrow> mstate list" where
  "rmatch (Cls p) st =
     (case fst (snd st) of
        [] \<Rightarrow> []
      | x # xs \<Rightarrow> if p x then [(Some x, xs, snd (snd st))] else [])"
| "rmatch Eps st = [st]"
| "rmatch (Seq a b) st = concat (map (rmatch b) (rmatch a st))"
| "rmatch (Alt a b) st = rmatch a st @ rmatch b st"
| "rmatch (Star a) st =
     concat (map (\<lambda>st'. if length (fst (snd st')) < length (fst (snd st))
                         then rmatch (Star a) st' else [])
                 (rmatch a st)) @ [st]"
| "rmatch (Lazy a) st =
     st # concat (map (\<lambda>st'. if length (fst (snd st')) < length (fst (snd st))
                              then rmatch (Lazy a) st' else [])
                      (rmatch a st))"
| "rmatch (Grp n a) st =
     map (\<lambda>st'. (fst st', fst (snd st'),
                  (n, take (length (fst (snd st)) - length (fst (snd st'))) (fst (snd st)))
                    # snd (snd st')))
         (rmatch a st)"
| "rmatch (Ahead a) st = (if rmatch a st = [] then [] else [st])"
| "rmatch WordB st =
     (if (case fst st of None \<Rightarrow> False | Some p \<Rightarrow> is_word p)
           \<noteq> (case fst (snd st) of [] \<Rightarrow> False | x # _ \<Rightarrow> is_word x)
      then [st] else [])"
| "rmatch End st = (if fst (snd st) = [] then [st] else [])"
  by pat_completeness auto
termination
  by (relation "measures [\<lambda>(r, st). size r, \<lambda>(r, st). length (fst (snd st))]") auto

text \<open>Pattern syntax: \<open>ch c\<close> a character, \<open>lit s\<close> a literal, \<open>r+\<close>, \<open>r?\<close>, a sequence.\<close>

definition ch :: "cu \<Rightarrow> re" where
  "ch c = Cls (\<lambda>x. x = c)"

definition oneof :: "jstring \<Rightarrow> re" where
  "oneof cs = Cls (\<lambda>x. x \<in> set cs)"

definition noneof :: "jstring \<Rightarrow> re" where
  "noneof cs = Cls (\<lambda>x. x \<notin> set cs)"

definition seqs :: "re list \<Rightarrow> re" where
  "seqs rs = foldr Seq rs Eps"

definition lit :: "jstring \<Rightarrow> re" where
  "lit s = seqs (map ch s)"

definition plus :: "re \<Rightarrow> re" where
  "plus r = Seq r (Star r)"

definition opt :: "re \<Rightarrow> re" where
  "opt r = Alt r Eps"

abbreviation spaces :: re where "spaces \<equiv> Star (Cls is_space)"

text \<open>The value of a group; a group that took no part in the match is the empty string.\<close>

definition cap :: "caps \<Rightarrow> nat \<Rightarrow> jstring" where
  "cap c n = (case map_of c n of None \<Rightarrow> [] | Some s \<Rightarrow> s)"

text \<open>
  A scan with the \<open>g\<close> flag cuts the text into the code units no match covers and the
  matches, left to right; after an empty match the scan moves on by one code unit.
\<close>

datatype piece = Keep cu | Hit jstring caps

function gscan :: "re \<Rightarrow> cu option \<Rightarrow> jstring \<Rightarrow> piece list" where
  "gscan r pv s =
     (case rmatch r (pv, s, []) of
        [] \<Rightarrow> (case s of [] \<Rightarrow> [] | x # xs \<Rightarrow> Keep x # gscan r (Some x) xs)
      | st # _ \<Rightarrow>
          if length (fst (snd st)) < length s
          then Hit (take (length s - length (fst (snd st))) s) (snd (snd st))
                 # gscan r (fst st) (fst (snd st))
          else Hit [] (snd (snd st))
                 # (case s of [] \<Rightarrow> [] | x # xs \<Rightarrow> Keep x # gscan r (Some x) xs))"
  by pat_completeness auto
termination
  by (relation "measure (\<lambda>(r, pv, s). length s)") auto

declare gscan.simps [simp del]

text \<open>\<open>s.matchAll(r)\<close>, \<open>r.test(s)\<close> and \<open>s.replace(r, f)\<close> for a global \<open>r\<close>.\<close>

definition matchAll :: "re \<Rightarrow> jstring \<Rightarrow> (jstring \<times> caps) list" where
  "matchAll r s = concat (map (\<lambda>p. case p of Keep x \<Rightarrow> [] | Hit m c \<Rightarrow> [(m, c)]) (gscan r None s))"

definition replace_g :: "re \<Rightarrow> (jstring \<Rightarrow> caps \<Rightarrow> jstring) \<Rightarrow> jstring \<Rightarrow> jstring" where
  "replace_g r f s = concat (map (\<lambda>p. case p of Keep x \<Rightarrow> [x] | Hit m c \<Rightarrow> f m c) (gscan r None s))"

text \<open>
  The first match of \<open>r\<close> in the text: what precedes it, the match, its groups and
  what follows.  \<open>test\<close> is \<open>r.test(s)\<close> (and \<open>s.match(r)\<close> read as a condition),
  \<open>replace_1\<close> is \<open>s.replace(r, f)\<close> for an \<open>r\<close> without the \<open>g\<close> flag.
\<close>

fun search :: "re \<Rightarrow> cu option \<Rightarrow> jstring \<Rightarrow> jstring \<Rightarrow> (jstring \<times> jstring \<times> caps \<times> jstring) option" where
  "search r pv pre [] =
     (case rmatch r (pv, [], []) of
        [] \<Rightarrow> None
      | st # _ \<Rightarrow> Some (rev pre, [], snd (snd st), []))"
| "search r pv pre (x # xs) =
     (case rmatch r (pv, x # xs, []) of
        [] \<Rightarrow> search r (Some x) (x # pre) xs
      | st # _ \<Rightarrow>
          Some (rev pre, take (length (x # xs) - length (fst (snd st))) (x # xs),
                snd (snd st), fst (snd st)))"

definition test :: "re \<Rightarrow> jstring \<Rightarrow> bool" where
  "test r s = (search r None [] s \<noteq> None)"

definition replace_1 :: "re \<Rightarrow> (jstring \<Rightarrow> caps \<Rightarrow> jstring) \<Rightarrow> jstring \<Rightarrow> jstring" where
  "replace_1 r f s =
     (case search r None [] s of
        None \<Rightarrow> s
      | Some (pre, m, c, post) \<Rightarrow> pre @ f m c @ post)"

text \<open>A replacement string: literal text and group references \<open>$n\<close>.\<close>

datatype titem = T jstring | G nat

fun subst :: "titem list \<Rightarrow> jstring \<Rightarrow> caps \<Rightarrow> jstring" where
  "subst [] m c = []"
| "subst (T s # ts) m c = s @ subst ts m c"
| "subst (G n # ts) m c = cap c n @ subst ts m c"

section \<open>The repair engine: \<open>JSONMan.fix\<close>\<close>

subsection \<open>Results\<close>

datatype fix_type = Quote | Comma | Bracket | Whitespace | Other

record FixReport =
  ftype :: fix_type
  description :: string
  position :: "nat \<times> nat"
  original :: jstring
  fixed :: jstring

text \<open>
  What is thrown inside the engine: the \<open>SyntaxError\<close> of \<open>JSON.parse\<close> on a text,
  and the \<open>Error\<close> of \<open>finalFixAttempt\<close>.  A \<open>JSONParseError\<close> is made from the
  native error of a strict parse, which gives it its message (\<open>fromNativeError\<close> in
  \<open>JSONMan.parse\<close>, the \<open>JSON Parse Error\<close> of \<open>Parser.safe\<close>), or is one of the two
  errors of \<open>fix\<close>, which have a fixed message.  No \<open>JSONParseError\<close> has a cause: the
  constructor of the base class assigns \<open>options.cause\<close> only when \<^verbatim>\<open>'cause' in this\<close>,
  and an error made by \<open>super(message)\<close> has no such property.
\<close>

datatype js_error = SyntaxError jstring | PlainTextError

datatype JSONParseError =
    FromNativeError js_error
  | JSON_Parse_Error js_error
  | Unable_to_fix
  | Failed_to_fix

record FixResult =
  success :: bool
  data :: "jstring option"
  error :: "JSONParseError option"
  fixes_list :: "FixReport list"

text \<open>\<open>JSONMan.parse\<close>, called without options: the value, or the error made from the native one.\<close>

definition JSONMan_parse :: "jstring \<Rightarrow> JSONParseError + json" where
  "JSONMan_parse jsonString =
     (case JSON_parse jsonString of
        Some v \<Rightarrow> Inr v
      | None \<Rightarrow> Inl (FromNativeError (SyntaxError jsonString)))"

definition parse_success :: "jstring \<Rightarrow> bool" where
  "parse_success t = (case JSONMan_parse t of Inr v \<Rightarrow> True | Inl e \<Rightarrow> False)"

text \<open>Every record of a pass spans the whole result: \<open>{ start: 0, end: result.length }\<close>.\<close>

definition report :: "fix_type \<Rightarrow> string \<Rightarrow> jstring \<Rightarrow> jstring \<Rightarrow> FixReport" where
  "report t d orig res =
     \<lparr>ftype = t, description = d, position = (0, length res), original = orig, fixed = res\<rparr>"

definition push_if :: "bool \<Rightarrow> FixReport \<Rightarrow> FixReport list \<Rightarrow> FixReport list" where
  "push_if b r fixes = (if b then fixes @ [r] else fixes)"

definition replace_t :: "re \<Rightarrow> titem list \<Rightarrow> jstring \<Rightarrow> jstring" where
  "replace_t r t s = replace_g r (subst t) s"

subsection \<open>Step 2: comments\<close>

definition multiLinePattern :: re where \<comment> \<open>\<^verbatim>\<open>/\/\*[\s\S]*?\*\//g\<close>\<close>
  "multiLinePattern = seqs [ch c_slash, ch c_star, Lazy (Cls (\<lambda>x. True)), ch c_star, ch c_slash]"

text \<open>
  The scan of one line for \<open>//\<close> outside a string, \<open>i\<close> running to \<open>line.length - 2\<close>:
  \<open>pre\<close> is \<open>line.substring(0, i)\<close> reversed.  \<open>None\<close>: the line is kept.
\<close>

fun line_scan :: "bool \<Rightarrow> bool \<Rightarrow> jstring \<Rightarrow> jstring \<Rightarrow> jstring option" where
  "line_scan inString escaped pre (c # d # rest) =
     (if escaped then line_scan inString False (c # pre) (d # rest)
      else if c = c_backslash then line_scan inString True (c # pre) (d # rest)
      else if \<not> (if c = c_dquote then \<not> inString else inString) \<and> c = c_slash \<and> d = c_slash
        then Some (trim (rev pre))
      else line_scan (if c = c_dquote then \<not> inString else inString) False (c # pre) (d # rest))"
| "line_scan inString escaped pre rest = None"

definition strip_line :: "jstring \<Rightarrow> jstring" where
  "strip_line line = (case line_scan False False [] line of None \<Rightarrow> line | Some l \<Rightarrow> l)"

definition removeComments :: "jstring \<Rightarrow> FixReport list \<Rightarrow> jstring \<times> FixReport list" where
  "removeComments text fixes =
     (let multi = test multiLinePattern text;
          result = (if multi then replace_g multiLinePattern (\<lambda>m c. [c_space]) text else text);
          cleanedResult = join [c_lf] (map strip_line (split c_lf result))
      in (cleanedResult,
          push_if (multi \<or> cleanedResult \<noteq> result)
            (report Other ''Removed comments'' text cleanedResult) fixes))"

subsection \<open>Steps 3 to 5: literals, hex numbers, duplicate delimiters\<close>

definition word_pattern :: "string \<Rightarrow> re" where \<comment> \<open>\<^verbatim>\<open>/\bWORD\b/g\<close>\<close>
  "word_pattern w = seqs [WordB, lit (js w), WordB]"

definition literalReplacements :: "(re \<times> jstring) list" where
  "literalReplacements =
     [(word_pattern ''None'', js ''null''),
      (word_pattern ''undefined'', js ''null''),
      (word_pattern ''NULL'', js ''null''),
      (word_pattern ''True'', js ''true''),
      (word_pattern ''False'', js ''false'')]"

fun literal_loop :: "(re \<times> jstring) list \<Rightarrow> jstring \<Rightarrow> bool \<Rightarrow> jstring \<times> bool" where
  "literal_loop [] result hasChanges = (result, hasChanges)"
| "literal_loop ((pattern, replacement) # ps) result hasChanges =
     (if test pattern result
      then literal_loop ps (replace_g pattern (\<lambda>m c. replacement) result) True
      else literal_loop ps result hasChanges)"

definition convertLiterals :: "jstring \<Rightarrow> FixReport list \<Rightarrow> jstring \<times> FixReport list" where
  "convertLiterals text fixes =
     (case literal_loop literalReplacements text False of
        (result, hasChanges) \<Rightarrow>
          (result, push_if hasChanges
                     (report Other ''Converted literals to JSON format'' text result) fixes))"

definition hexPattern :: re where \<comment> \<open>\<^verbatim>\<open>/\b0x([0-9A-Fa-f]+)\b/g\<close>\<close>
  "hexPattern = seqs [WordB, lit (js ''0x''), Grp 1 (plus (Cls is_hex)), WordB]"

text \<open>
  \<open>parseInt(hex, 16)\<close> is a JavaScript number, a double: the value of the digits
  rounded to 53 significant bits, a tie going to the even neighbour, and \<open>Infinity\<close>
  from \<open>2^1024 - 2^970\<close> on.
\<close>

datatype number = Finite int | Infinity

function bit_length :: "int \<Rightarrow> nat" where
  "bit_length n = (if n \<le> 0 then 0 else Suc (bit_length (n div 2)))"
  by pat_completeness auto
termination
  by (relation "measure nat") auto

definition to_number :: "int \<Rightarrow> number" where
  "to_number n =
     (if bit_length n \<le> 53 then Finite n
      else let ulp = 2 ^ (bit_length n - 53);
               q = n div ulp;
               r = n mod ulp;
               m = (if ulp < 2 * r \<or> (ulp = 2 * r \<and> odd q) then q + 1 else q)
           in if 1024 < bit_length (m * ulp) then Infinity else Finite (m * ulp))"

definition parseInt16 :: "jstring \<Rightarrow> number" where
  "parseInt16 hex = to_number (foldl (\<lambda>n c. 16 * n + int (hex_val c)) 0 hex)"

text \<open>
  \<open>Number.prototype.toString\<close> on such a number.  Below \<open>2^53\<close> every integer is a
  double and all its digits are printed.  From there on the digits are the fewest, \<open>k\<close>
  of them with value \<open>s\<close>, for which \<open>s * 10^(n-k)\<close> rounds to the number (the closest
  to it when several do, the even \<open>s\<close> on a tie), followed by zeros up to \<open>n = 21\<close>
  digits and in exponent notation beyond.
\<close>

function decimal :: "int \<Rightarrow> jstring" where
  "decimal n = (if n < 10 then [of_int (48 + n)] else decimal (n div 10) @ [of_int (48 + n mod 10)])"
  by pat_completeness auto
termination
  by (relation "measure nat") auto

definition candidates :: "int \<Rightarrow> nat \<Rightarrow> (int \<times> nat) list" where
  "candidates x k =
     (let n = length (decimal x); s = x div 10 ^ (n - k)
      in filter (\<lambda>(s, n). 10 ^ (k - 1) \<le> s \<and> s < 10 ^ k \<and> to_number (s * 10 ^ (n - k)) = Finite x)
           ([(s, n), (s + 1, n)] @ (if k = 1 then [(1, Suc n)] else [])))"

definition distance :: "int \<Rightarrow> nat \<Rightarrow> int \<times> nat \<Rightarrow> int" where
  "distance x k c = \<bar>fst c * 10 ^ (snd c - k) - x\<bar>"

fun closest :: "int \<Rightarrow> nat \<Rightarrow> (int \<times> nat) list \<Rightarrow> int \<times> nat" where
  "closest x k [] = (x, length (decimal x))"
| "closest x k [c] = c"
| "closest x k (c # d # cs) =
     (let e = closest x k (d # cs)
      in if distance x k c < distance x k e \<or> (distance x k c = distance x k e \<and> even (fst c))
         then c else e)"

definition number_toString :: "number \<Rightarrow> jstring" where
  "number_toString v =
     (case v of
        Infinity \<Rightarrow> js ''Infinity''
      | Finite x \<Rightarrow>
          if bit_length x \<le> 53 then decimal x
          else (case List.find (\<lambda>k. candidates x k \<noteq> []) [1 ..< Suc (length (decimal x))] of
                  None \<Rightarrow> decimal x
                | Some k \<Rightarrow>
                    (case closest x k (candidates x k) of
                       (s, n) \<Rightarrow>
                         if n \<le> 21 then decimal s @ replicate (n - k) 0x30
                         else take 1 (decimal s) @ (if k = 1 then [] else c_dot # drop 1 (decimal s))
                              @ js ''e+'' @ decimal (int n - 1))))"

definition convertHexNumbers :: "jstring \<Rightarrow> FixReport list \<Rightarrow> jstring \<times> FixReport list" where
  "convertHexNumbers text fixes =
     (let result = replace_g hexPattern (\<lambda>m c. number_toString (parseInt16 (cap c 1))) text
      in (result, push_if (test hexPattern text)
                    (report Other ''Converted hex numbers to decimal'' text result) fixes))"

definition fixDuplicateDelimiters :: "jstring \<Rightarrow> FixReport list \<Rightarrow> jstring \<times> FixReport list" where
  "fixDuplicateDelimiters text fixes =
     (let result =
            replace_t (lit (js '']]'')) [T (js '']'')]
              (replace_t (lit (js ''}}'')) [T (js ''}'')]
                (replace_t (lit (js ''[['')) [T (js ''['')]
                  (replace_t (lit (js ''{{'')) [T (js ''{'')] text)))
      in (result, push_if (result \<noteq> text)
                    (report Bracket ''Fixed duplicate delimiters'' text result) fixes))"

subsection \<open>Step 6: single quotes\<close>

text \<open>
  The inner loop, from \<open>j = i + 1\<close>: the content up to the closing quote and what
  follows it, or \<open>None\<close> when the text ends first.
\<close>

fun find_close :: "jstring \<Rightarrow> jstring \<Rightarrow> (jstring \<times> jstring) option" where
  "find_close content [] = None"
| "find_close content (c # cs) =
     (if c = c_squote then Some (content, cs)
      else if c = c_backslash then
        (case cs of
           [] \<Rightarrow> find_close (content @ [c]) cs
         | d # ds \<Rightarrow> find_close (content @ [c, d]) ds)
      else find_close (content @ [c]) cs)"

lemma find_close_length:
  "find_close content s = Some (content', rest) \<Longrightarrow> length rest < length s"
  by (induction content s rule: find_close.induct) (auto split: if_splits list.splits)

function quote_loop :: "jstring \<Rightarrow> bool \<Rightarrow> jstring \<Rightarrow> jstring \<times> bool" where
  "quote_loop newResult hasChanges [] = (newResult, hasChanges)"
| "quote_loop newResult hasChanges (c # cs) =
     (if c = c_squote then
        (case find_close [] cs of
           Some (content, rest) \<Rightarrow>
             quote_loop (newResult @ [c_dquote] @ content @ [c_dquote]) True rest
         | None \<Rightarrow> quote_loop (newResult @ [c]) hasChanges cs)
      else quote_loop (newResult @ [c]) hasChanges cs)"
  by pat_completeness auto
termination
  by (relation "measure (\<lambda>(n, h, s). length s)")
     (auto dest: find_close_length)

definition fixSingleQuotes :: "jstring \<Rightarrow> FixReport list \<Rightarrow> jstring \<times> FixReport list" where
  "fixSingleQuotes text fixes =
     (case quote_loop [] False text of
        (newResult, hasChanges) \<Rightarrow>
          if hasChanges
          then (newResult, fixes @ [report Quote ''Converted single quotes to double quotes'' text newResult])
          else (text, fixes))"

subsection \<open>Steps 7 and 8: inner quotes, escape sequences\<close>

definition problematicQuotePattern :: re where
  \<comment> \<open>\<^verbatim>\<open>/"([^"\\]*)"(\s*)([^"\\]+)"(\s*)([^"\\]*)"(?=\s*[,}\]])/g\<close>\<close>
  "problematicQuotePattern =
     seqs [ch c_dquote, Grp 1 (Star (noneof [c_dquote, c_backslash])), ch c_dquote,
           Grp 2 spaces, Grp 3 (plus (noneof [c_dquote, c_backslash])), ch c_dquote,
           Grp 4 spaces, Grp 5 (Star (noneof [c_dquote, c_backslash])), ch c_dquote,
           Ahead (Seq spaces (oneof (js '',}]'')))]"

definition looks_escaped :: "jstring \<Rightarrow> bool" where
  "looks_escaped middle =
     (0 < length (trim middle) \<and> \<not> str_includes middle [c_colon]
      \<and> \<not> str_includes middle [c_lbrace] \<and> \<not> str_includes middle [c_lbracket])"

definition fixUnescapedQuotes :: "jstring \<Rightarrow> FixReport list \<Rightarrow> jstring \<times> FixReport list" where
  "fixUnescapedQuotes text fixes =
     (let result =
            replace_g problematicQuotePattern
              (\<lambda>m c. if looks_escaped (cap c 3)
                      then [c_dquote] @ cap c 1 @ cap c 2 @ [c_backslash, c_dquote] @ cap c 3
                             @ [c_backslash, c_dquote] @ cap c 4 @ cap c 5 @ [c_dquote]
                      else m)
              text
      in (result,
          push_if (list_ex (\<lambda>h. looks_escaped (cap (snd h) 3)) (matchAll problematicQuotePattern text))
            (report Quote ''Fixed unescaped quotes in string values'' text result) fixes))"

definition hexEscapePattern :: re where \<comment> \<open>\<^verbatim>\<open>/\\x[0-9A-Fa-f]{2}/g\<close>\<close>
  "hexEscapePattern = seqs [ch c_backslash, ch 0x78, Cls is_hex, Cls is_hex]"

definition unicodeEscapePattern :: re where \<comment> \<open>\<^verbatim>\<open>/\\u[0-9A-Fa-f]{4}/g\<close>\<close>
  "unicodeEscapePattern = seqs [ch c_backslash, ch 0x75, Cls is_hex, Cls is_hex, Cls is_hex, Cls is_hex]"

text \<open>\<^verbatim>\<open>try { return JSON.parse(`"${match}"`) } catch { return '' }\<close>\<close>

definition decode_escape :: "jstring \<Rightarrow> jstring" where
  "decode_escape m =
     (case JSON_parse ([c_dquote] @ m @ [c_dquote]) of
        Some (JStr s) \<Rightarrow> s
      | _ \<Rightarrow> [])"

text \<open>Only the removal of \<open>\xNN\<close> sets \<open>hasChanges\<close>; the decoding of \<open>\uNNNN\<close> does not.\<close>

definition fixEscapeSequences :: "jstring \<Rightarrow> FixReport list \<Rightarrow> jstring \<times> FixReport list" where
  "fixEscapeSequences text fixes =
     (let result1 = replace_t hexEscapePattern [] text;
          result = replace_g unicodeEscapePattern (\<lambda>m c. decode_escape m) result1
      in (result, push_if (result1 \<noteq> text)
                    (report Other ''Fixed invalid escape sequences'' text result) fixes))"

subsection \<open>Steps 9 to 12: keys and commas\<close>

definition is_ident_start :: "cu \<Rightarrow> bool" where \<comment> \<open>\<^verbatim>\<open>[a-zA-Z_$]\<close>\<close>
  "is_ident_start c = ((0x61 \<le> c \<and> c \<le> 0x7A) \<or> (0x41 \<le> c \<and> c \<le> 0x5A) \<or> c = 0x5F \<or> c = 0x24)"

definition is_ident_char :: "cu \<Rightarrow> bool" where \<comment> \<open>\<^verbatim>\<open>[a-zA-Z0-9_$]\<close>\<close>
  "is_ident_char c = (is_word c \<or> c = 0x24)"

definition unquotedKeyPattern :: re where
  \<comment> \<open>\<^verbatim>\<open>/([{,]\s*)([a-zA-Z_$][a-zA-Z0-9_$]*)\s*:/g\<close>\<close>
  "unquotedKeyPattern =
     seqs [Grp 1 (Seq (oneof (js ''{,'')) spaces),
           Grp 2 (Seq (Cls is_ident_start) (Star (Cls is_ident_char))), spaces, ch c_colon]"

definition quoteUnquotedKeys :: "jstring \<Rightarrow> FixReport list \<Rightarrow> jstring \<times> FixReport list" where
  "quoteUnquotedKeys text fixes =
     (let result = replace_t unquotedKeyPattern [G 1, T [c_dquote], G 2, T [c_dquote, c_colon]] text
      in (result, push_if (result \<noteq> text) (report Quote ''Quoted unquoted keys'' text result) fixes))"

abbreviation not_quote :: re where "not_quote \<equiv> noneof [c_dquote]"

definition key_ahead :: re where \<comment> \<open>\<^verbatim>\<open>"?\w+"?\s*:\<close>\<close>
  "key_ahead = seqs [opt (ch c_dquote), plus (Cls is_word), opt (ch c_dquote), spaces, ch c_colon]"

definition comma_strings :: re where \<comment> \<open>\<^verbatim>\<open>/"([^"]*)"(\s+)"([^"]+)"(\s*):/g\<close>\<close>
  "comma_strings =
     seqs [ch c_dquote, Grp 1 (Star not_quote), ch c_dquote, Grp 2 (plus (Cls is_space)),
           ch c_dquote, Grp 3 (plus not_quote), ch c_dquote, Grp 4 spaces, ch c_colon]"

definition comma_after :: "cu \<Rightarrow> re" where \<comment> \<open>\<^verbatim>\<open>/}(\s*)"([^"]+)"(\s*):/g\<close>, and with \<open>]\<close>\<close>
  "comma_after closer =
     seqs [ch closer, Grp 1 spaces, ch c_dquote, Grp 2 (plus not_quote), ch c_dquote,
           Grp 3 spaces, ch c_colon]"

definition comma_words :: re where \<comment> \<open>\<^verbatim>\<open>/(\w+)(\s+)(\w+)(\s*):/g\<close>\<close>
  "comma_words =
     seqs [Grp 1 (plus (Cls is_word)), Grp 2 (plus (Cls is_space)), Grp 3 (plus (Cls is_word)),
           Grp 4 spaces, ch c_colon]"

definition comma_scalar :: re where \<comment> \<open>\<^verbatim>\<open>/(\d+|true|false|null)(\s+)("?\w+"?\s*:)/g\<close>\<close>
  "comma_scalar =
     seqs [Grp 1 (Alt (plus (Cls is_digit))
                   (Alt (lit (js ''true'')) (Alt (lit (js ''false'')) (lit (js ''null''))))),
           Grp 2 (plus (Cls is_space)), Grp 3 key_ahead]"

definition comma_between :: "cu \<Rightarrow> cu \<Rightarrow> re" where \<comment> \<open>\<^verbatim>\<open>/}(\s*){/g\<close> and its three variants\<close>
  "comma_between closer opener = seqs [ch closer, Grp 1 spaces, ch opener]"

definition not_line_end :: "cu \<Rightarrow> bool" where \<comment> \<open>the \<open>.\<close> of a regular expression\<close>
  "not_line_end c = (c \<noteq> 0x0A \<and> c \<noteq> 0x0D \<and> c \<noteq> 0x2028 \<and> c \<noteq> 0x2029)"

definition comma_value :: re where \<comment> \<open>\<^verbatim>\<open>/("(?:[^"\\]|\\.)*")(\s+)("?\w+"?\s*:)/g\<close>\<close>
  "comma_value =
     seqs [Grp 1 (seqs [ch c_dquote,
                        Star (Alt (noneof [c_dquote, c_backslash])
                                  (Seq (ch c_backslash) (Cls not_line_end))),
                        ch c_dquote]),
           Grp 2 (plus (Cls is_space)), Grp 3 key_ahead]"

definition fixMissingCommas :: "jstring \<Rightarrow> FixReport list \<Rightarrow> jstring \<times> FixReport list" where
  "fixMissingCommas text fixes =
     (let r1 = replace_t comma_strings
                 [T [c_dquote], G 1, T [c_dquote, c_comma], G 2, T [c_dquote], G 3, T [c_dquote], G 4, T [c_colon]] text;
          r2 = replace_t (comma_after c_rbrace)
                 [T [c_rbrace, c_comma], G 1, T [c_dquote], G 2, T [c_dquote], G 3, T [c_colon]] r1;
          r3 = replace_t (comma_after c_rbracket)
                 [T [c_rbracket, c_comma], G 1, T [c_dquote], G 2, T [c_dquote], G 3, T [c_colon]] r2;
          r4 = replace_t comma_words [G 1, T [c_comma], G 2, G 3, G 4, T [c_colon]] r3;
          r5 = replace_t comma_scalar [G 1, T [c_comma], G 2, G 3] r4;
          r6 = replace_t (comma_between c_rbrace c_lbrace) [T [c_rbrace, c_comma], G 1, T [c_lbrace]] r5;
          r7 = replace_t (comma_between c_rbracket c_lbracket) [T [c_rbracket, c_comma], G 1, T [c_lbracket]] r6;
          r8 = replace_t (comma_between c_rbrace c_lbracket) [T [c_rbrace, c_comma], G 1, T [c_lbracket]] r7;
          r9 = replace_t (comma_between c_rbracket c_lbrace) [T [c_rbracket, c_comma], G 1, T [c_lbrace]] r8;
          result = replace_t comma_value [G 1, T [c_comma], G 2, G 3] r9
      in (result, push_if (result \<noteq> text) (report Comma ''Added missing commas'' text result) fixes))"

definition fixDoubleCommas :: "jstring \<Rightarrow> FixReport list \<Rightarrow> jstring \<times> FixReport list" where
  \<comment> \<open>\<^verbatim>\<open>/,(\s*),/g\<close>, \<^verbatim>\<open>/\[(\s*),/g\<close>, \<^verbatim>\<open>/,(\s*)\]/g\<close>\<close>
  "fixDoubleCommas text fixes =
     (let r1 = replace_t (seqs [ch c_comma, Grp 1 spaces, ch c_comma]) [T [c_comma]] text;
          r2 = replace_t (seqs [ch c_lbracket, Grp 1 spaces, ch c_comma]) [T [c_lbracket]] r1;
          result = replace_t (seqs [ch c_comma, Grp 1 spaces, ch c_rbracket]) [T [c_rbracket]] r2
      in (result, push_if (result \<noteq> text)
                    (report Comma ''Fixed double commas and empty slots'' text result) fixes))"

definition trailingCommaPattern :: re where \<comment> \<open>\<^verbatim>\<open>/,(\s*[}\]])/g\<close>\<close>
  "trailingCommaPattern = seqs [ch c_comma, Grp 1 (Seq spaces (oneof (js ''}]'')))]"

definition fixTrailingCommas :: "jstring \<Rightarrow> FixReport list \<Rightarrow> jstring \<times> FixReport list" where
  \<comment> \<open>the second pattern is \<^verbatim>\<open>/,(\s*\n\s*[}\]])/g\<close>\<close>
  "fixTrailingCommas text fixes =
     (let r1 = replace_t trailingCommaPattern [G 1] text;
          result = replace_t (seqs [ch c_comma, Grp 1 (seqs [spaces, ch c_lf, spaces, oneof (js ''}]'')])])
                     [G 1] r1
      in (result, push_if (result \<noteq> text) (report Comma ''Removed trailing commas'' text result) fixes))"

subsection \<open>Step 13: brackets\<close>

text \<open>
  The first scan of \<open>balanceBrackets\<close>: the stack holds the expected closer and the
  position of each open delimiter (top first); a closer that differs from the expected
  one is recorded as a correction \<open>(pos, from, to)\<close>.
\<close>

fun mismatch_scan :: "nat \<Rightarrow> bool \<Rightarrow> bool \<Rightarrow> (cu \<times> nat) list \<Rightarrow> (nat \<times> cu \<times> cu) list
    \<Rightarrow> jstring \<Rightarrow> (nat \<times> cu \<times> cu) list" where
  "mismatch_scan i inString escaped stack corrections [] = corrections"
| "mismatch_scan i inString escaped stack corrections (c # cs) =
     (if escaped then mismatch_scan (Suc i) inString False stack corrections cs
      else if c = c_backslash then mismatch_scan (Suc i) inString True stack corrections cs
      else if c = c_dquote then mismatch_scan (Suc i) (\<not> inString) False stack corrections cs
      else if inString then mismatch_scan (Suc i) inString False stack corrections cs
      else if c = c_lbrace then mismatch_scan (Suc i) inString False ((c_rbrace, i) # stack) corrections cs
      else if c = c_lbracket then mismatch_scan (Suc i) inString False ((c_rbracket, i) # stack) corrections cs
      else if c = c_rbrace \<or> c = c_rbracket then
        (case stack of
           [] \<Rightarrow> mismatch_scan (Suc i) inString False stack corrections cs
         | expected # stack' \<Rightarrow>
             if fst expected \<noteq> c
             then mismatch_scan (Suc i) inString False stack' (corrections @ [(i, c, fst expected)]) cs
             else mismatch_scan (Suc i) inString False stack' corrections cs)
      else mismatch_scan (Suc i) inString False stack corrections cs)"

definition apply_correction :: "jstring \<Rightarrow> nat \<times> cu \<times> cu \<Rightarrow> jstring" where
  "apply_correction result correction =
     take (fst correction) result @ [snd (snd correction)] @ drop (Suc (fst correction)) result"

text \<open>The second scan: the closers of the delimiters still open, the last opened first.\<close>

fun open_scan :: "bool \<Rightarrow> bool \<Rightarrow> jstring \<Rightarrow> jstring \<Rightarrow> jstring" where
  "open_scan stringMode escapeNext openStack [] = openStack"
| "open_scan stringMode escapeNext openStack (c # cs) =
     (if escapeNext then open_scan stringMode False openStack cs
      else if c = c_backslash then open_scan stringMode True openStack cs
      else if c = c_dquote then open_scan (\<not> stringMode) False openStack cs
      else if stringMode then open_scan stringMode False openStack cs
      else if c = c_lbrace then open_scan stringMode False (c_rbrace # openStack) cs
      else if c = c_lbracket then open_scan stringMode False (c_rbracket # openStack) cs
      else if c = c_rbrace \<or> c = c_rbracket then open_scan stringMode False (tl openStack) cs
      else open_scan stringMode False openStack cs)"

definition incompletePattern :: re where \<comment> \<open>\<^verbatim>\<open>/[{,]\s*\w+\s*:\s*$/\<close>\<close>
  "incompletePattern =
     seqs [oneof (js ''{,''), spaces, plus (Cls is_word), spaces, ch c_colon, spaces, End]"

definition endCommaPattern :: re where \<comment> \<open>\<^verbatim>\<open>/,\s*$/\<close>\<close>
  "endCommaPattern = seqs [ch c_comma, spaces, End]"

definition balanceBrackets :: "jstring \<Rightarrow> FixReport list \<Rightarrow> jstring \<times> FixReport list" where
  "balanceBrackets text fixes =
     (let colon = endsWith text [c_colon];
          r1 = (if colon then text @ js ''null'' else text);
          incomplete = test incompletePattern r1;
          r2 = (if incomplete then r1 @ js ''null'' else r1);
          corrections = (if str_includes r2 [c_lbracket] \<and> str_includes r2 [c_rbrace]
                         then mismatch_scan 0 False False [] [] r2 else []);
          r3 = foldl apply_correction r2 (rev corrections);
          comma = (endsWith r3 [c_comma] \<or> test endCommaPattern r3);
          r4 = (if comma then replace_1 endCommaPattern (\<lambda>m c. []) r3 else r3);
          openStack = open_scan False False [] r4;
          result = r4 @ openStack
      in (result,
          push_if (colon \<or> incomplete \<or> corrections \<noteq> [] \<or> comma \<or> openStack \<noteq> [])
            (report Bracket ''Balanced brackets and completed incomplete structures'' text result)
            fixes))"

subsection \<open>Step 14: several roots\<close>

definition slice :: "jstring \<Rightarrow> nat \<Rightarrow> nat \<Rightarrow> jstring" where
  "slice s a b = take (b - a) (drop a s)"

text \<open>
  The scan for top-level \<open>{...}\<close> spans: \<open>braceCount\<close> is a JavaScript number and goes
  below zero on a closer that has no opener.
\<close>

fun root_scan :: "jstring \<Rightarrow> nat \<Rightarrow> int \<Rightarrow> nat \<Rightarrow> bool \<Rightarrow> bool \<Rightarrow> jstring \<Rightarrow> jstring list" where
  "root_scan trimmed i braceCount start inString escaped [] = []"
| "root_scan trimmed i braceCount start inString escaped (c # cs) =
     (if escaped then root_scan trimmed (Suc i) braceCount start inString False cs
      else if c = c_backslash then root_scan trimmed (Suc i) braceCount start inString True cs
      else if c = c_dquote then root_scan trimmed (Suc i) braceCount start (\<not> inString) False cs
      else if inString then root_scan trimmed (Suc i) braceCount start inString False cs
      else if c = c_lbrace then
        root_scan trimmed (Suc i) (braceCount + 1) (if braceCount = 0 then i else start) inString False cs
      else if c = c_rbrace then
        (if braceCount - 1 = 0
         then slice trimmed start (Suc i) # root_scan trimmed (Suc i) (braceCount - 1) start inString False cs
         else root_scan trimmed (Suc i) (braceCount - 1) start inString False cs)
      else root_scan trimmed (Suc i) braceCount start inString False cs)"

definition array_of :: "jstring list \<Rightarrow> jstring" where
  "array_of parts = [c_lbracket] @ join [c_comma] parts @ [c_rbracket]"

definition clean_line :: "jstring \<Rightarrow> jstring" where \<comment> \<open>\<^verbatim>\<open>line.trim().replace(/,$/, '')\<close>\<close>
  "clean_line line = replace_1 (Seq (ch c_comma) End) (\<lambda>m c. []) (trim line)"

definition handleMultipleRoots :: "jstring \<Rightarrow> FixReport list \<Rightarrow> jstring \<times> FixReport list" where
  "handleMultipleRoots text fixes =
     (let trimmed = trim text;
          objectSections = root_scan trimmed 0 0 0 False False trimmed;
          validObjects = (if 1 < length objectSections
                          then filter parse_success (map trim objectSections) else []);
          objectLines = (if str_includes trimmed (js ''}'' @ [c_lf] @ js ''{'')
                            \<or> str_includes trimmed (js ''},'' @ [c_lf] @ js ''{'')
                         then filter (\<lambda>cleanLine. startsWith cleanLine [c_lbrace]
                                         \<and> endsWith cleanLine [c_rbrace] \<and> parse_success cleanLine)
                                (map clean_line (split c_lf trimmed))
                         else [])
      in if 1 < length validObjects
         then (array_of validObjects,
               fixes @ [report Other ''Converted multiple root objects to array'' text (array_of validObjects)])
         else if 1 < length objectLines
         then (array_of objectLines,
               fixes @ [report Other ''Converted CSV-style object rows to array'' text (array_of objectLines)])
         else (text, fixes))"

subsection \<open>Steps 15 and 16: dangling artifacts, stringified JSON\<close>

definition removeDanglingArtifacts :: "jstring \<Rightarrow> FixReport list \<Rightarrow> jstring \<times> FixReport list" where
  \<comment> \<open>\<^verbatim>\<open>/:\s*["']?\s*$/\<close> and \<^verbatim>\<open>/[,:;]\s*$/\<close>\<close>
  "removeDanglingArtifacts text fixes =
     (let r1 = replace_1 (seqs [ch c_colon, spaces, opt (oneof [c_dquote, c_squote]), spaces, End])
                 (\<lambda>m c. []) text;
          result = replace_1 (seqs [oneof (js '',:;''), spaces, End]) (\<lambda>m c. []) r1
      in (result, push_if (result \<noteq> text) (report Other ''Removed dangling artifacts'' text result) fixes))"

definition stringPattern :: re where \<comment> \<open>\<^verbatim>\<open>/"([^"\\]*(\\.[^"\\]*)*)"/g\<close>\<close>
  "stringPattern =
     seqs [ch c_dquote,
           Grp 1 (Seq (Star (noneof [c_dquote, c_backslash]))
                      (Star (Grp 2 (seqs [ch c_backslash, Cls not_line_end,
                                          Star (noneof [c_dquote, c_backslash])])))),
           ch c_dquote]"

text \<open>
  The callback of one iteration: the unescaped content when the content looks like
  stringified JSON and its unescaped form parses.  \<open>JSONMan.parse\<close> returns a result
  and never throws, so the \<open>catch\<close> that would call \<open>fix\<close> again is never entered.
\<close>

definition unescaped_of :: "jstring \<Rightarrow> jstring" where
  \<comment> \<open>\<^verbatim>\<open>content.replace(/\\"/g, '"').replace(/\\\\/g, '\\')\<close>\<close>
  "unescaped_of content =
     replace_t (lit [c_backslash, c_backslash]) [T [c_backslash]]
       (replace_t (lit [c_backslash, c_dquote]) [T [c_dquote]] content)"

definition unescapes :: "jstring \<Rightarrow> bool" where
  "unescapes content =
     (str_includes content [c_backslash, c_dquote]
      \<and> (str_includes content [c_lbrace] \<or> str_includes content [c_lbracket])
      \<and> parse_success (unescaped_of content))"

fun unescape_loop :: "nat \<Rightarrow> jstring \<Rightarrow> bool \<Rightarrow> jstring \<times> bool" where
  "unescape_loop 0 result hasChanges = (result, hasChanges)"
| "unescape_loop (Suc maxIterations) result hasChanges =
     (if list_ex (\<lambda>h. unescapes (cap (snd h) 1)) (matchAll stringPattern result)
      then unescape_loop maxIterations
             (replace_g stringPattern
                (\<lambda>m c. if unescapes (cap c 1) then unescaped_of (cap c 1) else m) result)
             True
      else (result, hasChanges))"

definition unescapeStringifiedJSON :: "jstring \<Rightarrow> FixReport list \<Rightarrow> jstring \<times> FixReport list" where
  "unescapeStringifiedJSON text fixes =
     (case unescape_loop 10 text False of
        (result, hasChanges) \<Rightarrow>
          (result, push_if hasChanges (report Other ''Unescaped stringified JSON'' text result) fixes))"

subsection \<open>The last resort\<close>

text \<open>
  \<open>!isNaN(Number(s))\<close>: \<open>s\<close>, its white space trimmed, is empty or a
  StringNumericLiteral of ECMAScript (a signed decimal literal or \<open>Infinity\<close>, or an
  unsigned binary, octal or hexadecimal integer).
\<close>

definition exponentPart :: re where
  "exponentPart = seqs [oneof (js ''eE''), opt (oneof (js ''+-'')), plus (Cls is_digit)]"

definition numericLiteral :: re where
  "numericLiteral =
     Alt (Seq (opt (oneof (js ''+-'')))
              (Alt (lit (js ''Infinity''))
                (Alt (seqs [plus (Cls is_digit), ch c_dot, Star (Cls is_digit), opt exponentPart])
                  (Alt (seqs [ch c_dot, plus (Cls is_digit), opt exponentPart])
                       (seqs [plus (Cls is_digit), opt exponentPart])))))
         (Seq (ch 0x30)
              (Alt (Seq (oneof (js ''xX'')) (plus (Cls is_hex)))
                (Alt (Seq (oneof (js ''oO'')) (plus (oneof (js ''01234567''))))
                     (Seq (oneof (js ''bB'')) (plus (oneof (js ''01'')))))))"

definition is_number :: "jstring \<Rightarrow> bool" where
  "is_number s = (trim s = [] \<or> rmatch (Seq numericLiteral End) (None, trim s, []) \<noteq> [])"

definition finalFixAttempt :: "jstring \<Rightarrow> js_error + jstring" where
  "finalFixAttempt text =
     (let result = trim text;
          trimmed = trim result;
          bare = (\<not> str_includes result [c_lbrace] \<and> \<not> str_includes result [c_lbracket]
                  \<and> \<not> str_includes result [c_dquote])
      in if result = [] \<or> result = [c_dquote, c_dquote] then Inr (js ''null'')
         else if startsWith result (js ''//'') \<and> \<not> str_includes result [c_lbrace]
                 \<and> \<not> str_includes result [c_lbracket] then Inr (js ''null'')
         else if \<not> (str_includes result [c_lbrace] \<or> str_includes result [c_lbracket]
                     \<or> str_includes result [c_colon] \<or> str_includes result [c_dquote])
                 \<and> 3 < length (split c_space result) then Inl PlainTextError
         else if bare \<and> (trimmed = js ''true'' \<or> trimmed = js ''false'' \<or> trimmed = js ''null'')
           then Inr trimmed
         else if bare \<and> is_number trimmed \<and> trimmed \<noteq> [] then Inr trimmed
         else if bare \<and> trimmed \<noteq> [] \<and> \<not> str_includes trimmed [c_space]
           then Inr ([c_dquote] @ trimmed @ [c_dquote])
         else if str_includes result [c_colon] \<and> \<not> startsWith (trim result) [c_lbrace]
                 \<and> \<not> startsWith (trim result) [c_lbracket]
           then Inr ([c_lbrace] @ result @ [c_rbrace])
         else if str_includes result [c_lbrace] \<and> \<not> str_includes result [c_rbrace]
           then Inr (result @ [c_rbrace])
         else if str_includes result [c_lbracket] \<and> \<not> str_includes result [c_rbracket]
           then Inr (result @ [c_rbracket])
         else Inr result)"

subsection \<open>The pipeline\<close>

text \<open>
  Steps 1 to 17 of \<open>fix\<close>: the byte-order mark, the fifteen passes in their order,
  each on the text and the records of the one before, and \<open>trim\<close>.
\<close>

definition removeBOM :: "jstring \<Rightarrow> jstring \<times> FixReport list" where
  "removeBOM malformedJson =
     (case malformedJson of
        [] \<Rightarrow> (malformedJson, [])
      | c # cs \<Rightarrow>
          if c = c_bom
          then (cs, [\<lparr>ftype = Other, description = ''Removed Unicode BOM'', position = (0, 1),
                      original = take 1 malformedJson, fixed = []\<rparr>])
          else (malformedJson, []))"

definition and_then :: "jstring \<times> FixReport list
    \<Rightarrow> (jstring \<Rightarrow> FixReport list \<Rightarrow> jstring \<times> FixReport list) \<Rightarrow> jstring \<times> FixReport list" where
  "and_then st pass = pass (fst st) (snd st)"

definition passes :: "(jstring \<Rightarrow> FixReport list \<Rightarrow> jstring \<times> FixReport list) list" where
  "passes =
     [removeComments, convertLiterals, convertHexNumbers, fixDuplicateDelimiters,
      fixSingleQuotes, fixUnescapedQuotes, fixEscapeSequences, quoteUnquotedKeys,
      fixMissingCommas, fixDoubleCommas, fixTrailingCommas, balanceBrackets,
      handleMultipleRoots, removeDanglingArtifacts, unescapeStringifiedJSON]"

definition fix_passes :: "jstring \<Rightarrow> jstring \<times> FixReport list" where
  "fix_passes malformedJson =
     (case foldl and_then (removeBOM malformedJson) passes of
        (text, fixes) \<Rightarrow> (trim text, fixes))"

text \<open>
  The body of the \<open>try\<close> block: its result, or the error thrown in it (only
  \<open>finalFixAttempt\<close> throws).
\<close>

definition fix_try :: "jstring \<Rightarrow> js_error + FixResult" where
  "fix_try malformedJson =
     (case fix_passes malformedJson of
        (fixedText, fixes) \<Rightarrow>
          (case JSONMan_parse fixedText of
             Inr v \<Rightarrow> Inr \<lparr>success = True, data = Some fixedText, error = None, fixes_list = fixes\<rparr>
           | Inl e \<Rightarrow>
               (case finalFixAttempt fixedText of
                  Inl thrown \<Rightarrow> Inl thrown
                | Inr finalAttempt \<Rightarrow>
                    (case JSONMan_parse finalAttempt of
                       Inr v \<Rightarrow>
                         Inr \<lparr>success = True, data = Some finalAttempt, error = None,
                              fixes_list = fixes @
                                [\<lparr>ftype = Other, description = ''Applied final recovery fixes'',
                                  position = (0, length finalAttempt),
                                  original = fixedText, fixed = finalAttempt\<rparr>]\<rparr>
                     | Inl e' \<Rightarrow>
                         Inr \<lparr>success = False, data = None, error = Some Unable_to_fix,
                              fixes_list = fixes\<rparr>))))"

definition JSONMan_fix :: "jstring \<Rightarrow> FixResult" where
  "JSONMan_fix malformedJson =
     (case fix_try malformedJson of
        Inr r \<Rightarrow> r
      | Inl thrown \<Rightarrow>
          \<lparr>success = False, data = None, error = Some Failed_to_fix, fixes_list = []\<rparr>)"

section \<open>The diagnostic reporter: \<open>Parser.diagnose\<close>\<close>

definition safe :: "jstring \<Rightarrow> JSONParseError + json" where
  "safe input =
     (case JSON_parse input of
        Some v \<Rightarrow> Inr v
      | None \<Rightarrow> Inl (JSON_Parse_Error (SyntaxError input)))"

record Finding =
  type :: string
  message :: string
  suggestion :: string

record Diagnosis =
  isValid :: bool
  errors :: "Finding list"

definition issues :: "(re \<times> Finding) list" where
  "issues =
     [(ch c_squote,
       \<lparr>type = ''quote'', message = ''Single quotes found'', suggestion = ''Use double quotes instead''\<rparr>),
      (trailingCommaPattern,
       \<lparr>type = ''comma'', message = ''Trailing comma found'', suggestion = ''Remove trailing commas''\<rparr>),
      (unquotedKeyPattern,
       \<lparr>type = ''key'', message = ''Unquoted key found'', suggestion = ''Quote all object keys''\<rparr>),
      (seqs [ch c_colon, spaces, lit (js ''undefined'')],
       \<lparr>type = ''value'', message = ''undefined value found'',
        suggestion = ''Use null instead of undefined''\<rparr>)]"

definition diagnose :: "jstring \<Rightarrow> Diagnosis" where
  "diagnose jsonString =
     (case safe jsonString of
        Inr v \<Rightarrow> \<lparr>isValid = True, errors = []\<rparr>
      | Inl e \<Rightarrow>
          \<lparr>isValid = False,
           errors = concat (map (\<lambda>issue. map (\<lambda>match. snd issue) (matchAll (fst issue) jsonString))
                                issues)\<rparr>)"

section \<open>String literals\<close>


section \<open>What the strict parser consumes\<close>

text \<open>
  Two notions for the proofs about the strict parser.  Two continuations of a text
  \<open>agree\<close> when a parser that has read a value and looks one character ahead cannot tell
  them apart: the second is empty where the first is empty or begins with white space, or
  both begin with the same character.  A parser \<open>splits\<close> a text when, wherever it returns
  a value and a rest, it has read a non-empty prefix that neither begins nor ends with
  white space, and reads the same value from that prefix before any continuation that
  agrees with the rest.
\<close>

definition agree :: "jstring \<Rightarrow> jstring \<Rightarrow> bool" where
  "agree r r' = ((r' = [] \<and> (r = [] \<or> is_json_ws (hd r))) \<or> (r \<noteq> [] \<and> r' \<noteq> [] \<and> hd r = hd r'))"

definition splits :: "(jstring \<Rightarrow> ('a \<times> jstring) option) \<Rightarrow> jstring \<Rightarrow> bool" where
  "splits p s = (\<forall>v r. p s = Some (v, r) \<longrightarrow>
     (\<exists>c. s = c @ r \<and> c \<noteq> [] \<and> \<not> is_space (hd c) \<and> \<not> is_space (last c)
          \<and> (\<forall>r'. agree r r' \<longrightarrow> p (c @ r') = Some (v, r'))))"

section \<open>The examples of the specification\<close>

text \<open>
  What \<open>fix\<close> returns, from the text and the records the passes leave: the text parses;
  or it does not and \<open>finalFixAttempt\<close> throws; or the text of \<open>finalFixAttempt\<close> does not
  parse either.
\<close>

lemma fix_parsed:
  assumes "fix_passes t = (d, fs)" and "JSON_parse d = Some v"
  shows "JSONMan_fix t = \<lparr>success = True, data = Some d, error = None, fixes_list = fs\<rparr>"
  using assms by (simp add: JSONMan_fix_def fix_try_def JSONMan_parse_def)


lemma fix_unable:
  assumes "fix_passes t = (d, fs)" and "JSON_parse d = None" and "finalFixAttempt d = Inr a"
    and "JSON_parse a = None"
  shows "JSONMan_fix t = \<lparr>success = False, data = None, error = Some Unable_to_fix, fixes_list = fs\<rparr>"
  using assms by (simp add: JSONMan_fix_def fix_try_def JSONMan_parse_def)


text \<open>
  C5: \<open>fix\<close> succeeds on \<open>{a:{b:[1,2,3,{c:\<close> and the repaired text strict-parses to
  \<open>{a:{b:[1,2,3,{c:null}]}}\<close>: the keys are quoted, \<open>null\<close> is appended after the
  dangling colon, then the closers of the four open delimiters, the last opened first.
  On the same text followed by one blank no \<open>null\<close> is appended: the text no longer
  ends with the colon, and the pattern \<^verbatim>\<open>/[{,]\s*\w+\s*:\s*$/\<close>, which allows the blank, does
  not match the key that step 9 has put in quotes.  The closers are appended after the
  blank, the result does not parse, and \<open>fix\<close> fails.
\<close>

theorem fix_dangling_assignment:
  \<open>success (JSONMan_fix (js ''{a:{b:[1,2,3,{c:''))
   \<and> data (JSONMan_fix (js ''{a:{b:[1,2,3,{c:'')) = Some (js ''{"a":{"b":[1,2,3,{"c":null}]}}'')
   \<and> map description (fixes_list (JSONMan_fix (js ''{a:{b:[1,2,3,{c:'')))
       = [''Quoted unquoted keys'', ''Balanced brackets and completed incomplete structures'']
   \<and> JSON_parse (js ''{"a":{"b":[1,2,3,{"c":null}]}}'') =
       Some (JObj [(js ''a'', JObj [(js ''b'', JArr [JNum 1, JNum 2, JNum 3, JObj [(js ''c'', JNull)]])])])
   \<and> open_scan False False [] (js ''{"a":{"b":[1,2,3,{"c":null'') = js ''}]}}''
   \<and> fst (fix_passes (js ''{a:{b:[1,2,3,{c: '')) = js ''{"a":{"b":[1,2,3,{"c": }]}}''
   \<and> JSONMan_fix (js ''{a:{b:[1,2,3,{c: '') =
       \<lparr>success = False, data = None, error = Some Unable_to_fix,
        fixes_list = snd (fix_passes (js ''{a:{b:[1,2,3,{c: ''))\<rparr>\<close>
proof -
  have passes: \<open>fix_passes (js ''{a:{b:[1,2,3,{c:'') =
      (js ''{"a":{"b":[1,2,3,{"c":null}]}}'',
       [report Quote ''Quoted unquoted keys''
          (js ''{a:{b:[1,2,3,{c:'') (js ''{"a":{"b":[1,2,3,{"c":''),
        report Bracket ''Balanced brackets and completed incomplete structures''
          (js ''{"a":{"b":[1,2,3,{"c":'') (js ''{"a":{"b":[1,2,3,{"c":null}]}}'')])\<close>
    by code_simp
  have parsed: \<open>JSON_parse (js ''{"a":{"b":[1,2,3,{"c":null}]}}'') =
      Some (JObj [(js ''a'', JObj [(js ''b'', JArr [JNum 1, JNum 2, JNum 3, JObj [(js ''c'', JNull)]])])])\<close>
    by code_simp
  have closers: \<open>open_scan False False [] (js ''{"a":{"b":[1,2,3,{"c":null'') = js ''}]}}''\<close>
    by code_simp
  have blank: \<open>fix_passes (js ''{a:{b:[1,2,3,{c: '') =
      (js ''{"a":{"b":[1,2,3,{"c": }]}}'',
       [report Quote ''Quoted unquoted keys''
          (js ''{a:{b:[1,2,3,{c: '') (js ''{"a":{"b":[1,2,3,{"c": ''),
        report Bracket ''Balanced brackets and completed incomplete structures''
          (js ''{"a":{"b":[1,2,3,{"c": '') (js ''{"a":{"b":[1,2,3,{"c": }]}}'')])\<close>
    by code_simp
  have invalid: \<open>JSON_parse (js ''{"a":{"b":[1,2,3,{"c": }]}}'') = None\<close>
    by code_simp
  have last_resort: \<open>finalFixAttempt (js ''{"a":{"b":[1,2,3,{"c": }]}}'')
      = Inr (js ''{"a":{"b":[1,2,3,{"c": }]}}'')\<close>
    by code_simp
  from fix_parsed [OF passes parsed] parsed closers
    fix_unable [OF blank invalid last_resort invalid] blank
  show ?thesis
    by (simp add: report_def)
qed


section \<open>The orchestrator\<close>

lemma finalFixAttempt_throws: "finalFixAttempt x = Inl e \<Longrightarrow> e = PlainTextError"
  by (simp add: finalFixAttempt_def Let_def split: if_splits)

text \<open>
  C3: \<open>fix\<close> returns a result on every text and throws nothing.  Every pass is a total
  function that raises nowhere; the one exception of the engine, thrown by
  \<open>finalFixAttempt\<close>, is caught and becomes a failure.  The result has one of three
  shapes: a success whose data strict-parses, the failure \<open>Unable to fix JSON after all
  attempts\<close>, or the failure \<open>Failed to fix JSON\<close> returned where the exception is caught.
\<close>

theorem fix_total:
  "(\<exists>d fs v. JSONMan_fix t = \<lparr>success = True, data = Some d, error = None, fixes_list = fs\<rparr>
        \<and> JSON_parse d = Some v)
   \<or> (\<exists>fs. JSONMan_fix t = \<lparr>success = False, data = None, error = Some Unable_to_fix, fixes_list = fs\<rparr>)
   \<or> (fix_try t = Inl PlainTextError
       \<and> JSONMan_fix t = \<lparr>success = False, data = None, error = Some Failed_to_fix,
                            fixes_list = []\<rparr>)"
proof (cases "fix_passes t")
  case (Pair fixedText fs)
  show ?thesis
  proof (cases "JSON_parse fixedText")
    case (Some v)
    with Pair show ?thesis
      by (simp add: JSONMan_fix_def fix_try_def JSONMan_parse_def)
  next
    case None
    show ?thesis
    proof (cases "finalFixAttempt fixedText")
      case (Inl thrown)
      then have "thrown = PlainTextError" by (rule finalFixAttempt_throws)
      with Pair None Inl show ?thesis
        by (simp add: JSONMan_fix_def fix_try_def JSONMan_parse_def)
    next
      case (Inr finalAttempt)
      with Pair None show ?thesis
        by (cases "JSON_parse finalAttempt")
           (simp_all add: JSONMan_fix_def fix_try_def JSONMan_parse_def)
    qed
  qed
qed

text \<open>
  C8 fails as stated: a failure does not carry the error of the last strict parse.  On
  \<open>{a:1,b}\<close> the key pass records a fix, the text \<open>{"a":1,b}\<close> fails the strict
  parse, \<open>finalFixAttempt\<close> returns it as it is and it fails again; \<open>fix\<close> returns the
  record with a new error, \<open>Unable to fix JSON after all attempts\<close>, and not with the
  error of that parse.
\<close>

theorem fix_failure_new_error:
  \<open>\<not> success (JSONMan_fix (js ''{a:1,b}''))
   \<and> finalFixAttempt (fst (fix_passes (js ''{a:1,b}''))) = Inr (js ''{"a":1,b}'')
   \<and> JSONMan_parse (js ''{"a":1,b}'') = Inl (FromNativeError (SyntaxError (js ''{"a":1,b}'')))
   \<and> error (JSONMan_fix (js ''{a:1,b}'')) = Some Unable_to_fix
   \<and> error (JSONMan_fix (js ''{a:1,b}'')) \<noteq> Some (FromNativeError (SyntaxError (js ''{"a":1,b}'')))\<close>
proof -
  have passes: \<open>fix_passes (js ''{a:1,b}'') =
      (js ''{"a":1,b}'', [report Quote ''Quoted unquoted keys'' (js ''{a:1,b}'') (js ''{"a":1,b}'')])\<close>
    by code_simp
  have invalid: \<open>JSON_parse (js ''{"a":1,b}'') = None\<close>
    by code_simp
  have last_resort: \<open>finalFixAttempt (js ''{"a":1,b}'') = Inr (js ''{"a":1,b}'')\<close>
    by code_simp
  from fix_unable [OF passes invalid last_resort invalid] passes invalid last_resort
  show ?thesis
    by (simp add: JSONMan_parse_def)
qed

text \<open>
  C8, as the code has it by design: a failure carries no data and a new error.  Where
  the text of \<open>finalFixAttempt\<close> fails the strict parse, the error is
  \<open>Unable to fix JSON after all attempts\<close> and the fixes are the records of the passes;
  where \<open>finalFixAttempt\<close> throws, the error is \<open>Failed to fix JSON\<close>.
\<close>

theorem fix_failure_shape:
  assumes "\<not> success (JSONMan_fix t)"
  shows "data (JSONMan_fix t) = None \<and>
    ((error (JSONMan_fix t) = Some Unable_to_fix
        \<and> fixes_list (JSONMan_fix t) = snd (fix_passes t)
        \<and> (\<exists>a. finalFixAttempt (fst (fix_passes t)) = Inr a \<and> JSON_parse a = None))
     \<or> (error (JSONMan_fix t) = Some Failed_to_fix
        \<and> finalFixAttempt (fst (fix_passes t)) = Inl PlainTextError))"
proof (cases "fix_passes t")
  case (Pair fixedText fs)
  show ?thesis
  proof (cases "JSON_parse fixedText")
    case (Some v)
    with Pair assms show ?thesis
      by (simp add: JSONMan_fix_def fix_try_def JSONMan_parse_def)
  next
    case None
    show ?thesis
    proof (cases "finalFixAttempt fixedText")
      case (Inl thrown)
      then have "thrown = PlainTextError" by (rule finalFixAttempt_throws)
      with Pair None Inl show ?thesis
        by (simp add: JSONMan_fix_def fix_try_def JSONMan_parse_def)
    next
      case (Inr finalAttempt)
      with Pair None assms show ?thesis
        by (cases "JSON_parse finalAttempt")
           (simp_all add: JSONMan_fix_def fix_try_def JSONMan_parse_def)
    qed
  qed
qed

theorem fix_failure_shape_witness:
  \<open>\<not> success (JSONMan_fix (js ''[1 2''))
   \<and> data (JSONMan_fix (js ''[1 2'')) = None
   \<and> error (JSONMan_fix (js ''[1 2'')) = Some Unable_to_fix
   \<and> map description (fixes_list (JSONMan_fix (js ''[1 2'')))
       = [''Balanced brackets and completed incomplete structures'']\<close>
proof -
  have passes: \<open>fix_passes (js ''[1 2'') =
      (js ''[1 2]'',
       [report Bracket ''Balanced brackets and completed incomplete structures'' (js ''[1 2'') (js ''[1 2]'')])\<close>
    by code_simp
  have invalid: \<open>JSON_parse (js ''[1 2]'') = None\<close>
    by code_simp
  have last_resort: \<open>finalFixAttempt (js ''[1 2]'') = Inr (js ''[1 2]'')\<close>
    by code_simp
  note result = fix_unable [OF passes invalid last_resort invalid]
  have failed: \<open>\<not> success (JSONMan_fix (js ''[1 2''))\<close>
    by (subst result) simp
  have unable: \<open>error (JSONMan_fix (js ''[1 2'')) \<noteq> Some Failed_to_fix\<close>
    by (subst result) simp
  from fix_failure_shape [OF failed] failed unable passes show ?thesis
    by (auto simp add: report_def)
qed


section \<open>The strict parser and white space\<close>



























declare parse_value.simps [simp del] parse_elements.simps [simp del] parse_members.simps [simp del]






















section \<open>Valid input and repaired output\<close>








section \<open>String literals and the passes\<close>










section \<open>The diagnostic reporter\<close>

lemma rmatch_ch:
  "rmatch (ch c) st =
     (case fst (snd st) of [] \<Rightarrow> [] | x # xs \<Rightarrow> if x = c then [(Some x, xs, snd (snd st))] else [])"
  by (simp add: ch_def)

lemma gscan_ch: "gscan (ch c) pv s = map (\<lambda>x. if x = c then Hit [x] [] else Keep x) s"
proof (induction s arbitrary: pv)
  case Nil
  show ?case by (subst gscan.simps) (simp add: rmatch_ch)
next
  case (Cons x xs)
  show ?case by (subst gscan.simps) (simp add: rmatch_ch Cons.IH)
qed

lemma matchAll_ch: "length (matchAll (ch c) s) = count_list s c"
  by (induction s) (simp_all add: matchAll_def gscan_ch)

lemma filter_const_map:
  "filter P (map (\<lambda>m. f) xs) = (if P f then map (\<lambda>m. f) xs else [])"
  by (induction xs) simp_all

text \<open>
  C9 fails as stated: \<open>diagnose\<close> pushes a finding for every match.  The two single
  quotes of \<open>{'a':1}\<close> give two findings of the type \<open>quote\<close>.
\<close>

theorem diagnose_repeats_finding:
  \<open>map type (errors (diagnose (js ''{'' @ [c_squote] @ js ''a'' @ [c_squote] @ js '':1}'')))
     = [''quote'', ''quote'']\<close>
  by code_simp

text \<open>
  C9, as the code has it: on a text that fails the strict parse, \<open>diagnose\<close> emits one
  finding for each occurrence of each pattern of its catalogue; the findings of the type
  \<open>quote\<close> are as many as the single quotes of the text.
\<close>

theorem diagnose_one_finding_per_occurrence:
  assumes "JSON_parse t = None"
  shows "length (errors (diagnose t)) = sum_list (map (\<lambda>issue. length (matchAll (fst issue) t)) issues)
     \<and> length (filter (\<lambda>e. type e = ''quote'') (errors (diagnose t))) = count_list t c_squote"
  using assms
  by (simp add: diagnose_def safe_def issues_def filter_const_map matchAll_ch)

theorem diagnose_one_finding_per_occurrence_witness:
  \<open>JSON_parse (js ''{'' @ [c_squote] @ js ''a'' @ [c_squote] @ js '':1}'') = None
   \<and> length (errors (diagnose (js ''{'' @ [c_squote] @ js ''a'' @ [c_squote] @ js '':1}''))) = 2
   \<and> length (filter (\<lambda>e. type e = ''quote'')
               (errors (diagnose (js ''{'' @ [c_squote] @ js ''a'' @ [c_squote] @ js '':1}'')))) = 2\<close>
proof -
  have invalid: \<open>JSON_parse (js ''{'' @ [c_squote] @ js ''a'' @ [c_squote] @ js '':1}'') = None\<close>
    by code_simp
  have total: \<open>sum_list (map (\<lambda>issue. length (matchAll (fst issue)
                   (js ''{'' @ [c_squote] @ js ''a'' @ [c_squote] @ js '':1}''))) issues) = 2\<close>
    by code_simp
  have quotes: \<open>count_list (js ''{'' @ [c_squote] @ js ''a'' @ [c_squote] @ js '':1}'') c_squote = 2\<close>
    by code_simp
  from diagnose_one_finding_per_occurrence [OF invalid] invalid total quotes show ?thesis
    by simp
qed

text \<open>
  C10: a text that fails the strict parse and that no pattern of the catalogue matches
  gets \<open>isValid = False\<close> with no finding at all; \<open>{"a":}\<close> is such a text.
\<close>

theorem diagnose_no_findings:
  assumes "JSON_parse t = None"
    and "list_all (\<lambda>issue. matchAll (fst issue) t = []) issues"
  shows "diagnose t = \<lparr>isValid = False, errors = []\<rparr>"
  using assms by (simp add: diagnose_def safe_def list_all_iff)

theorem diagnose_no_findings_witness:
  \<open>JSON_parse (js ''{"a":}'') = None
   \<and> list_all (\<lambda>issue. matchAll (fst issue) (js ''{"a":}'') = []) issues
   \<and> diagnose (js ''{"a":}'') = \<lparr>isValid = False, errors = []\<rparr>\<close>
proof -
  have invalid: \<open>JSON_parse (js ''{"a":}'') = None\<close>
    by code_simp
  have unmatched: \<open>list_all (\<lambda>issue. matchAll (fst issue) (js ''{"a":}'') = []) issues\<close>
    by code_simp
  from diagnose_no_findings [OF invalid unmatched] invalid unmatched show ?thesis
    by simp
qed

end
